theory Spec2Isabelle
  imports Main
begin

section \<open>Data model of pln.py\<close>

text \<open>
  The exceptions the analysed methods can raise: indexing a list out of range
  (\<open>IndexError\<close>), reading an attribute of \<open>None\<close> (\<open>AttributeError\<close>),
  and calling a method when the interpreter allows no further frame
  (\<open>RecursionError\<close>). The program defines no exception class of its own.
\<close>

datatype erro = IndexError | AttributeError | RecursionError

text \<open>
  Class \<open>Token\<close>. The normaliser gives \<open>indice\<close> the values 0, 1, 2, ... and
  the head index of \<open>dependencia\<close> comes from \<open>list.index\<close>; both are natural
  numbers. \<open>dependencia\<close> is \<open>None\<close> for the root, else the pair
  (relation with the head, index of the head).
\<close>

record token =
  texto :: string
  indice :: nat
  pos :: string
  tag :: string
  lemma' :: string
  dependencia :: "(string \<times> nat) option"

text \<open>Class \<open>Trecho\<close>: a sequence of tokens.\<close>

record trecho =
  tokens :: "token list"

text \<open>Class \<open>SVO\<close>; the three optional fields default to \<open>None\<close>.\<close>

record svo =
  sujeito :: trecho
  verbo :: "trecho option"
  objetoDireto :: "trecho option"
  objetoIndireto :: "trecho option"

text \<open>Class \<open>Sentenca(Trecho)\<close>: a \<open>Trecho\<close> extended by the analysis.\<close>

record sentenca = trecho +
  tipo :: "nat option"
  svos :: "svo list"
  svcs :: "unit list"

definition TIPO_SENTENCA_DECLARATIVA :: nat where
  "TIPO_SENTENCA_DECLARATIVA = 0"

definition TIPO_SENTENCA_CONDICIONAL :: nat where
  "TIPO_SENTENCA_CONDICIONAL = 1"

definition RELACOES_OBJETO :: "string list" where
  "RELACOES_OBJETO = [''dobj'', ''iobj'', ''dative'']"

definition RELACOES_OBJETO_DIRETO :: "string list" where
  "RELACOES_OBJETO_DIRETO = [''dobj'']"

definition RELACOES_OBJETO_INDIRETO :: "string list" where
  "RELACOES_OBJETO_INDIRETO = [''iobj'', ''dative'']"

section \<open>Python primitives\<close>

text \<open>\<open>xs[i]\<close> for a natural index: raises \<open>IndexError\<close> out of range.\<close>

definition item :: "'a list \<Rightarrow> nat \<Rightarrow> erro + 'a" where
  "item xs i = (if i < length xs then Inr (xs ! i) else Inl IndexError)"

text \<open>\<open>s.startswith(p)\<close>.\<close>

definition startswith :: "string \<Rightarrow> string \<Rightarrow> bool" where
  "startswith s p = (take (length p) s = p)"

text \<open>
  A method call raises (\<open>Inl e\<close>) or returns a value (\<open>Inr v\<close>).
\<close>

type_synonym 'a resultado = "erro + 'a"

definition entao :: "'a resultado \<Rightarrow> ('a \<Rightarrow> 'b resultado) \<Rightarrow> 'b resultado" where
  "entao m f = (case m of Inl e \<Rightarrow> Inl e | Inr v \<Rightarrow> f v)"

text \<open>
  The interpreter's stack. Every call of a method takes a frame, the
  interpreter allows a fixed number of them (\<open>sys.getrecursionlimit()\<close>, 1000
  unless changed, and the program never changes it), and a call made when none
  is left raises \<open>RecursionError\<close>. Each method below that reaches a
  recursive traversal has a first argument \<open>pilha\<close>: the number of frames
  still free when the method is called. A call with \<open>pilha = 0\<close> raises; the
  body of a call with \<open>pilha = Suc n\<close> makes its own calls with \<open>n\<close>. The
  loop of a method runs in the frame of the method, so a function that stands
  for a loop passes its \<open>pilha\<close> on unchanged to the calls of its body. The
  frame that a list comprehension, a constructor or a key function takes for
  one step is not counted.
\<close>

section \<open>Trecho\<close>

text \<open>
  \<open>Trecho.__str__\<close>: the loop body is
  \<open>texto = (texto[:-1] if token.pos == "PUNCT" else texto) + token.texto + " "\<close>,
  and the result is \<open>texto[:-1]\<close>. On a string, \<open>[:-1]\<close> is \<open>butlast\<close>.
\<close>

definition str_passo :: "string \<Rightarrow> token \<Rightarrow> string" where
  "str_passo acumulado t =
     (if pos t = ''PUNCT'' then butlast acumulado else acumulado) @ texto t @ '' ''"

definition str_tokens :: "token list \<Rightarrow> string" where
  "str_tokens ts = butlast (foldl str_passo [] ts)"

definition str_Trecho :: "trecho \<Rightarrow> string" where
  "str_Trecho tr = str_tokens (tokens tr)"

text \<open>\<open>Trecho.ordenar\<close>: \<open>sorted\<close> with a key is a stable sort.\<close>

definition ordenar :: "trecho \<Rightarrow> trecho" where
  "ordenar tr = tr\<lparr>tokens := sort_key indice (tokens tr)\<rparr>"

section \<open>PLN\<close>

subsection \<open>Sentence type\<close>

text \<open>
  \<open>__obterTipoDaSentenca\<close>: \<open>tokens[0]\<close> is read first; \<open>tokens[1]\<close> is read
  only when the first token is an adposition whose text is not "if"
  (\<open>or\<close> evaluates its right operand only when the left one is false).
\<close>

definition obterTipoDaSentenca :: "sentenca \<Rightarrow> erro + nat" where
  "obterTipoDaSentenca s =
     (case item (tokens s) 0 of
        Inl e \<Rightarrow> Inl e
      | Inr t0 \<Rightarrow>
          if pos t0 = ''ADP'' then
            (if texto t0 = ''if'' then Inr TIPO_SENTENCA_CONDICIONAL
             else (case item (tokens s) 1 of
                     Inl e \<Rightarrow> Inl e
                   | Inr t1 \<Rightarrow>
                       if texto t1 = ''case'' then Inr TIPO_SENTENCA_CONDICIONAL
                       else Inr TIPO_SENTENCA_DECLARATIVA))
          else Inr TIPO_SENTENCA_DECLARATIVA)"

subsection \<open>Tree traversals\<close>

text \<open>
  \<open>__obterDescendentes\<close>. The \<open>for\<close> loop over \<open>sentenca.tokens\<close> is
  \<open>obterDescendentes_laco\<close>: its fourth argument is what is left of the token
  list, its fifth the list \<open>descendentes\<close> built so far. The method calls
  itself inside the loop, on a token whose head index is \<open>raiz.indice\<close>;
  no test of the method bounds that recursion, only the stack does.
\<close>

function obterDescendentes :: "nat \<Rightarrow> sentenca \<Rightarrow> token \<Rightarrow> token list resultado"
  and obterDescendentes_laco ::
    "nat \<Rightarrow> sentenca \<Rightarrow> token \<Rightarrow> token list \<Rightarrow> token list \<Rightarrow> token list resultado" where
  "obterDescendentes 0 s raiz = Inl RecursionError"
| "obterDescendentes (Suc pilha) s raiz = obterDescendentes_laco pilha s raiz (tokens s) []"
| "obterDescendentes_laco pilha s raiz [] descendentes = Inr descendentes"
| "obterDescendentes_laco pilha s raiz (t # resto) descendentes =
     (case dependencia t of
        None \<Rightarrow> obterDescendentes_laco pilha s raiz resto descendentes
      | Some d \<Rightarrow>
          if snd d = indice raiz then
            (case obterDescendentes pilha s t of
               Inl e \<Rightarrow> Inl e
             | Inr sub \<Rightarrow>
                 obterDescendentes_laco pilha s raiz resto ((descendentes @ [t]) @ sub))
          else obterDescendentes_laco pilha s raiz resto descendentes)"
  by pat_completeness auto
termination
  by (relation
      "(\<lambda>x. case x of Inl (n, s, r) \<Rightarrow> 2 * n | Inr (n, s, r, ts, ds) \<Rightarrow> 2 * n + 1)
         <*mlex*>
       (\<lambda>x. case x of Inl (n, s, r) \<Rightarrow> 0 | Inr (n, s, r, ts, ds) \<Rightarrow> length ts)
         <*mlex*> {}")
     (auto simp: wf_mlex mlex_prod_def)

text \<open>
  \<open>__buscarAscendenteComPOSEspecifico\<close>. \<open>folha\<close> is \<open>None\<close> when the caller
  found no key token; reading \<open>folha.dependencia\<close> then raises. The method
  calls itself on the head of \<open>folha\<close>, one frame per edge.
\<close>

fun buscarAscendenteComPOSEspecifico ::
  "nat \<Rightarrow> sentenca \<Rightarrow> token option \<Rightarrow> string \<Rightarrow> token option resultado" where
  "buscarAscendenteComPOSEspecifico 0 s folha p = Inl RecursionError"
| "buscarAscendenteComPOSEspecifico (Suc pilha) s folha p =
     (case folha of
        None \<Rightarrow> Inl AttributeError
      | Some f \<Rightarrow>
          (case dependencia f of
             None \<Rightarrow> Inr None
           | Some d \<Rightarrow>
               (case item (tokens s) (snd d) of
                  Inl e \<Rightarrow> Inl e
                | Inr pai \<Rightarrow>
                    if pos pai = p then Inr (Some pai)
                    else buscarAscendenteComPOSEspecifico pilha s (Some pai) p)))"

text \<open>
  \<open>__obterComplementaresDoVerbo\<close>. The loop runs over
  \<open>range(raiz.indice, len(sentenca.tokens) - 1)\<close>, so every index it reads is
  in range; the fourth argument of the loop is what is left of that range.
\<close>

function obterComplementaresDoVerbo :: "nat \<Rightarrow> sentenca \<Rightarrow> token \<Rightarrow> token list resultado"
  and obterComplementaresDoVerbo_laco ::
    "nat \<Rightarrow> sentenca \<Rightarrow> token \<Rightarrow> nat list \<Rightarrow> token list \<Rightarrow> token list resultado" where
  "obterComplementaresDoVerbo 0 s raiz = Inl RecursionError"
| "obterComplementaresDoVerbo (Suc pilha) s raiz =
     obterComplementaresDoVerbo_laco pilha s raiz [indice raiz ..< length (tokens s) - 1] []"
| "obterComplementaresDoVerbo_laco pilha s raiz [] complementares = Inr complementares"
| "obterComplementaresDoVerbo_laco pilha s raiz (i # resto) complementares =
     (case dependencia (tokens s ! i) of
        None \<Rightarrow> obterComplementaresDoVerbo_laco pilha s raiz resto complementares
      | Some d \<Rightarrow>
          if snd d = indice raiz \<and> fst d \<notin> set RELACOES_OBJETO then
            (case obterComplementaresDoVerbo pilha s (tokens s ! i) of
               Inl e \<Rightarrow> Inl e
             | Inr sub \<Rightarrow>
                 obterComplementaresDoVerbo_laco pilha s raiz resto
                   ((complementares @ [tokens s ! i]) @ sub))
          else obterComplementaresDoVerbo_laco pilha s raiz resto complementares)"
  by pat_completeness auto
termination
  by (relation
      "(\<lambda>x. case x of Inl (n, s, r) \<Rightarrow> 2 * n | Inr (n, s, r, ns, cs) \<Rightarrow> 2 * n + 1)
         <*mlex*>
       (\<lambda>x. case x of Inl (n, s, r) \<Rightarrow> 0 | Inr (n, s, r, ns, cs) \<Rightarrow> length ns)
         <*mlex*> {}")
     (auto simp: wf_mlex mlex_prod_def)

text \<open>
  \<open>__obterDescendentesDaDireita\<close>. The loop runs over
  \<open>range(raiz.indice, len(sentenca.tokens))\<close>; below a token it keeps, it
  calls \<open>__obterDescendentes\<close>, the traversal without restriction.
  \<open>raiz\<close> is \<open>None\<close> when the caller found no
  verb token; reading \<open>raiz.indice\<close> then raises.
\<close>

fun obterDescendentesDaDireita_laco ::
  "nat \<Rightarrow> sentenca \<Rightarrow> token \<Rightarrow> nat list \<Rightarrow> token list \<Rightarrow> token list resultado" where
  "obterDescendentesDaDireita_laco pilha s raiz [] descendentes = Inr descendentes"
| "obterDescendentesDaDireita_laco pilha s raiz (i # resto) descendentes =
     (case dependencia (tokens s ! i) of
        None \<Rightarrow> obterDescendentesDaDireita_laco pilha s raiz resto descendentes
      | Some d \<Rightarrow>
          if pos (tokens s ! i) \<noteq> ''PUNCT'' then
            (if snd d = indice raiz then
               (case obterDescendentes pilha s (tokens s ! i) of
                  Inl e \<Rightarrow> Inl e
                | Inr sub \<Rightarrow>
                    obterDescendentesDaDireita_laco pilha s raiz resto
                      ((descendentes @ [tokens s ! i]) @ sub))
             else obterDescendentesDaDireita_laco pilha s raiz resto descendentes)
          else obterDescendentesDaDireita_laco pilha s raiz resto descendentes)"

fun obterDescendentesDaDireita :: "nat \<Rightarrow> sentenca \<Rightarrow> token option \<Rightarrow> token list resultado" where
  "obterDescendentesDaDireita 0 s raiz = Inl RecursionError"
| "obterDescendentesDaDireita (Suc pilha) s raiz =
     (case raiz of
        None \<Rightarrow> Inl AttributeError
      | Some r \<Rightarrow>
          obterDescendentesDaDireita_laco pilha s r [indice r ..< length (tokens s)] [])"

subsection \<open>Subjects, verb, objects\<close>

text \<open>The test \<open>token.dependencia is not None and token.dependencia[0].startswith("nsubj")\<close>.\<close>

definition eh_nsubj :: "token \<Rightarrow> bool" where
  "eh_nsubj t = (case dependencia t of None \<Rightarrow> False | Some d \<Rightarrow> startswith (fst d) ''nsubj'')"

text \<open>\<open>__extrairSujeitos\<close>: one sorted phrase per token of \<open>nsubjs\<close>.\<close>

fun extrairSujeitos_laco ::
  "nat \<Rightarrow> sentenca \<Rightarrow> token list \<Rightarrow> trecho list \<Rightarrow> trecho list resultado" where
  "extrairSujeitos_laco pilha s [] sujeitos = Inr sujeitos"
| "extrairSujeitos_laco pilha s (t # resto) sujeitos =
     (case obterDescendentes pilha s t of
        Inl e \<Rightarrow> Inl e
      | Inr descendentes \<Rightarrow>
          extrairSujeitos_laco pilha s resto
            (sujeitos @ [ordenar \<lparr>tokens = [t] @ descendentes\<rparr>]))"

fun extrairSujeitos :: "nat \<Rightarrow> sentenca \<Rightarrow> trecho list resultado" where
  "extrairSujeitos 0 s = Inl RecursionError"
| "extrairSujeitos (Suc pilha) s = extrairSujeitos_laco pilha s (filter eh_nsubj (tokens s)) []"

text \<open>
  \<open>__obterVerboRelacionadoAoSujeito\<close>: \<open>tokenChave\<close> is the first token of the
  subject with an nsubj relation (\<open>None\<close> if there is none); the phrase
  returned is \<open>Trecho([verbo] + complementares)\<close>, returned as built.
\<close>

fun obterVerboRelacionadoAoSujeito :: "nat \<Rightarrow> sentenca \<Rightarrow> trecho \<Rightarrow> trecho option resultado" where
  "obterVerboRelacionadoAoSujeito 0 s suj = Inl RecursionError"
| "obterVerboRelacionadoAoSujeito (Suc pilha) s suj =
     entao (buscarAscendenteComPOSEspecifico pilha s (find eh_nsubj (tokens suj)) ''VERB'')
       (\<lambda>vb. case vb of
                None \<Rightarrow> Inr None
              | Some v \<Rightarrow>
                  (case obterComplementaresDoVerbo pilha s v of
                     Inl e \<Rightarrow> Inl e
                   | Inr cs \<Rightarrow> Inr (Some \<lparr>tokens = [v] @ cs\<rparr>)))"

text \<open>The loop \<open>for objeto in objetos: complementares = complementares + ...\<close>.\<close>

fun objetos_laco :: "nat \<Rightarrow> sentenca \<Rightarrow> token list \<Rightarrow> token list \<Rightarrow> token list resultado" where
  "objetos_laco pilha s [] complementares = Inr complementares"
| "objetos_laco pilha s (objeto # resto) complementares =
     (case obterDescendentes pilha s objeto of
        Inl e \<Rightarrow> Inl e
      | Inr ds \<Rightarrow> objetos_laco pilha s resto (complementares @ ds))"

text \<open>
  \<open>__obterObjetosRelacionadoAoVerbo\<close>: \<open>verbo\<close> is the verb field of the SVO,
  a \<open>Trecho\<close> or \<open>None\<close>; the method starts with \<open>for token in verbo.tokens\<close>.
\<close>

fun obterObjetosRelacionadosAoVerbo ::
  "nat \<Rightarrow> sentenca \<Rightarrow> trecho option \<Rightarrow> string list \<Rightarrow> trecho option resultado" where
  "obterObjetosRelacionadosAoVerbo 0 s vb relacoes = Inl RecursionError"
| "obterObjetosRelacionadosAoVerbo (Suc pilha) s vb relacoes =
     (case vb of
        None \<Rightarrow> Inl AttributeError
      | Some v \<Rightarrow>
          entao (obterDescendentesDaDireita pilha s (find (\<lambda>t. pos t = ''VERB'') (tokens v)))
            (\<lambda>descendentes.
               let objetos = filter (\<lambda>t. case dependencia t of
                                            None \<Rightarrow> False
                                          | Some d \<Rightarrow> fst d \<in> set relacoes) descendentes
               in if length objetos > 0 then
                    (case objetos_laco pilha s objetos [] of
                       Inl e \<Rightarrow> Inl e
                     | Inr complementares \<Rightarrow>
                         Inr (Some (ordenar \<lparr>tokens = objetos @ complementares\<rparr>)))
                  else Inr None))"

text \<open>\<open>__extrairSVOs\<close>: the loop over the subjects, then the method.\<close>

fun extrairSVOs_laco :: "nat \<Rightarrow> sentenca \<Rightarrow> trecho list \<Rightarrow> svo list \<Rightarrow> svo list resultado" where
  "extrairSVOs_laco pilha s [] acc = Inr acc"
| "extrairSVOs_laco pilha s (suj # resto) acc =
     entao (obterVerboRelacionadoAoSujeito pilha s suj) (\<lambda>vb.
     entao (obterObjetosRelacionadosAoVerbo pilha s vb RELACOES_OBJETO_DIRETO) (\<lambda>od.
     entao (obterObjetosRelacionadosAoVerbo pilha s vb RELACOES_OBJETO_INDIRETO) (\<lambda>oi.
       extrairSVOs_laco pilha s resto
         (acc @ [\<lparr>sujeito = suj, verbo = vb, objetoDireto = od, objetoIndireto = oi\<rparr>]))))"

fun extrairSVOs :: "nat \<Rightarrow> sentenca \<Rightarrow> svo list resultado" where
  "extrairSVOs 0 s = Inl RecursionError"
| "extrairSVOs (Suc pilha) s =
     entao (extrairSujeitos pilha s) (\<lambda>sujeitos. extrairSVOs_laco pilha s sujeitos [])"

text \<open>
  The body of the loop of \<open>analisar\<close> for one sentence, with \<open>pilha\<close> frames
  free for the calls it makes: the type is computed, and the SVOs are
  extracted only from a declarative sentence.
\<close>

definition analisar_sentenca :: "nat \<Rightarrow> sentenca \<Rightarrow> sentenca resultado" where
  "analisar_sentenca pilha s =
     (if pilha = 0 then Inl RecursionError
      else
        (case obterTipoDaSentenca s of
           Inl e \<Rightarrow> Inl e
         | Inr tp \<Rightarrow>
             if tp = TIPO_SENTENCA_DECLARATIVA then
               entao (extrairSVOs pilha s) (\<lambda>xs. Inr (s\<lparr>tipo := Some tp, svos := xs\<rparr>))
             else Inr (s\<lparr>tipo := Some tp\<rparr>)))"

text \<open>
  What \<open>mostrarAnaliseSintatica\<close> prints of an SVO: the text of each of its
  four fields (\<open>None\<close> for an absent one).
\<close>

definition mostrar_svo :: "svo \<Rightarrow> string \<times> string option \<times> string option \<times> string option" where
  "mostrar_svo x =
     (str_Trecho (sujeito x), map_option str_Trecho (verbo x),
      map_option str_Trecho (objetoDireto x), map_option str_Trecho (objetoIndireto x))"

section \<open>Singleton\<close>

text \<open>
  The metaclass of singleton.py. The state of the process, as far as the
  metaclass sees it: the dictionary \<open>_instances\<close> from a class (its name) to
  its instance (the address of the object), the next free address, and the
  number of times a constructor body (\<open>__init__\<close>, which builds the parser
  of \<open>PLN\<close>) has run.
\<close>

record mundo =
  instances :: "string \<rightharpoonup> nat"
  proximo :: nat
  inicializacoes :: nat

text \<open>
  \<open>Singleton.__call__\<close>: only a class that is not yet a key of
  \<open>_instances\<close> is instantiated (a new object, whose \<open>__init__\<close> runs and
  is taken to return) and stored; the stored instance is returned.
\<close>

definition Singleton_call :: "string \<Rightarrow> mundo \<Rightarrow> nat \<times> mundo" where
  "Singleton_call cls w =
     (case instances w cls of
        None \<Rightarrow>
          (proximo w,
           w\<lparr>instances := (instances w)(cls \<mapsto> proximo w),
             proximo := Suc (proximo w),
             inicializacoes := Suc (inicializacoes w)\<rparr>)
      | Some obj \<Rightarrow> (obj, w))"

text \<open>The state when the module has just been loaded: \<open>_instances = {}\<close>.\<close>

definition mundo_inicial :: mundo where
  "mundo_inicial = \<lparr>instances = Map.empty, proximo = 0, inicializacoes = 0\<rparr>"

text \<open>\<open>n\<close> constructor calls \<open>cls()\<close> in a row: the objects returned, in order, and the final state.\<close>

fun construir :: "string \<Rightarrow> nat \<Rightarrow> mundo \<Rightarrow> nat list \<times> mundo" where
  "construir cls 0 w = ([], w)"
| "construir cls (Suc n) w =
     (let (obj, w') = Singleton_call cls w;
          (objs, w'') = construir cls n w'
      in (obj # objs, w''))"

section \<open>Sentences used as examples\<close>

text \<open>
  A token as the normaliser builds it (\<open>Token(palavra.lower_)\<close>, then the
  fields), and \<open>Sentenca(tokens)\<close>.
\<close>

definition novo_token :: "string \<Rightarrow> nat \<Rightarrow> string \<Rightarrow> (string \<times> nat) option \<Rightarrow> token" where
  "novo_token tx i p d =
     \<lparr>texto = tx, indice = i, pos = p, tag = [], lemma' = tx, dependencia = d\<rparr>"

definition nova_sentenca :: "token list \<Rightarrow> sentenca" where
  "nova_sentenca ts = \<lparr>tokens = ts, tipo = None, svos = [], svcs = []\<rparr>"

text \<open>
  "The cat eats fish." The edge of the final period is a parameter: the parser
  attaches it to the verb (\<open>Some (''punct'', 2)\<close>).
\<close>

definition the_cat_eats_fish :: "(string \<times> nat) option \<Rightarrow> sentenca" where
  "the_cat_eats_fish ponto = nova_sentenca
     [novo_token ''the'' 0 ''DET'' (Some (''det'', 1)),
      novo_token ''cat'' 1 ''NOUN'' (Some (''nsubj'', 2)),
      novo_token ''eats'' 2 ''VERB'' None,
      novo_token ''fish'' 3 ''NOUN'' (Some (''dobj'', 2)),
      novo_token ''.'' 4 ''PUNCT'' ponto]"

text \<open>"He happy": a subject whose head is an adjective; no token is a verb.\<close>

definition he_happy :: sentenca where
  "he_happy = nova_sentenca
     [novo_token ''he'' 0 ''PRON'' (Some (''nsubj'', 1)),
      novo_token ''happy'' 1 ''ADJ'' None]"

text \<open>Two tokens, each the head of the other: a cycle, and no root.\<close>

definition ciclo_a :: token where
  "ciclo_a = novo_token ''a'' 0 ''NOUN'' (Some (''dep'', 1))"

definition ciclo_b :: token where
  "ciclo_b = novo_token ''b'' 1 ''NOUN'' (Some (''dep'', 0))"

definition ciclo :: sentenca where
  "ciclo = nova_sentenca [ciclo_a, ciclo_b]"

text \<open>One-token sentences: the adpositions "in" and "if".\<close>

definition so_in :: sentenca where
  "so_in = nova_sentenca [novo_token ''in'' 0 ''ADP'' None]"

definition so_if :: sentenca where
  "so_if = nova_sentenca [novo_token ''if'' 0 ''ADP'' None]"

text \<open>
  "He came earlier today than expected.": "than expected" depends on
  "earlier", across "today", which depends on the verb.
\<close>

definition came_earlier :: sentenca where
  "came_earlier = nova_sentenca
     [novo_token ''he'' 0 ''PRON'' (Some (''nsubj'', 1)),
      novo_token ''came'' 1 ''VERB'' None,
      novo_token ''earlier'' 2 ''ADV'' (Some (''advmod'', 1)),
      novo_token ''today'' 3 ''NOUN'' (Some (''npadvmod'', 1)),
      novo_token ''than'' 4 ''ADP'' (Some (''prep'', 2)),
      novo_token ''expected'' 5 ''VERB'' (Some (''pcomp'', 4)),
      novo_token ''.'' 6 ''PUNCT'' (Some (''punct'', 1))]"

text \<open>"He eats apples, pears.": the comma depends on the object.\<close>

definition eats_apples :: sentenca where
  "eats_apples = nova_sentenca
     [novo_token ''he'' 0 ''PRON'' (Some (''nsubj'', 1)),
      novo_token ''eats'' 1 ''VERB'' None,
      novo_token ''apples'' 2 ''NOUN'' (Some (''dobj'', 1)),
      novo_token '','' 3 ''PUNCT'' (Some (''punct'', 2)),
      novo_token ''pears'' 4 ''NOUN'' (Some (''conj'', 2)),
      novo_token ''.'' 5 ''PUNCT'' (Some (''punct'', 1))]"

text \<open>"What do you want to eat?": "what" is the object of "eat", to its left.\<close>

definition want_to_eat :: sentenca where
  "want_to_eat = nova_sentenca
     [novo_token ''what'' 0 ''NOUN'' (Some (''dobj'', 5)),
      novo_token ''do'' 1 ''VERB'' (Some (''aux'', 3)),
      novo_token ''you'' 2 ''PRON'' (Some (''nsubj'', 3)),
      novo_token ''want'' 3 ''VERB'' None,
      novo_token ''to'' 4 ''PART'' (Some (''aux'', 5)),
      novo_token ''eat'' 5 ''VERB'' (Some (''xcomp'', 3)),
      novo_token ''?'' 6 ''PUNCT'' (Some (''punct'', 3))]"

text \<open>"He runs fast", followed by the tokens \<open>fim\<close> (nothing, or a final period).\<close>

definition he_runs_fast :: "token list \<Rightarrow> sentenca" where
  "he_runs_fast fim = nova_sentenca
     ([novo_token ''he'' 0 ''PRON'' (Some (''nsubj'', 1)),
       novo_token ''runs'' 1 ''VERB'' None,
       novo_token ''fast'' 2 ''ADV'' (Some (''advmod'', 1))] @ fim)"

text \<open>The phrase "he is happy," of four tokens, the last one punctuation.\<close>

definition he_is_happy :: trecho where
  "he_is_happy =
     \<lparr>tokens =
        [novo_token ''he'' 0 ''PRON'' (Some (''nsubj'', 1)),
         novo_token ''is'' 1 ''VERB'' None,
         novo_token ''happy'' 2 ''ADJ'' (Some (''acomp'', 1)),
         novo_token '','' 3 ''PUNCT'' (Some (''punct'', 1))]\<rparr>"

section \<open>Cycles of heads\<close>

text \<open>
  A sentence is normalised when each token's \<open>indice\<close> is its position, as
  \<open>__normalizarAnaliseSintatica\<close> assigns it.
\<close>

definition normalizada :: "sentenca \<Rightarrow> bool" where
  "normalizada s = (map indice (tokens s) = [0 ..< length (tokens s)])"

text \<open>
  \<open>sobe ts k i\<close>: the position reached from position \<open>i\<close> after \<open>k\<close> edges
  to the head, if the chain of heads is that long and stays inside the
  sentence. A token at position \<open>i\<close> lies on a cycle when
  \<open>sobe ts k i = Some i\<close> for some \<open>k > 0\<close>: its chain of heads comes volta
  to it.
\<close>

fun sobe :: "token list \<Rightarrow> nat \<Rightarrow> nat \<Rightarrow> nat option" where
  "sobe ts 0 i = Some i"
| "sobe ts (Suc k) i =
     (if i < length ts then
        (case dependencia (ts ! i) of
           None \<Rightarrow> None
         | Some d \<Rightarrow> sobe ts k (snd d))
      else None)"

section \<open>Rendering, as a join\<close>

text \<open>
  The rule of the renderer in words: the texts are joined by one space, except
  that a punctuation token has no space before it; nothing follows the last
  token, and the empty phrase gives the empty string.
\<close>

definition separador :: "token \<Rightarrow> string" where
  "separador t = (if pos t = ''PUNCT'' then [] else '' '')"

fun juntar :: "token list \<Rightarrow> string" where
  "juntar [] = []"
| "juntar (t # ts) = texto t @ concat (map (\<lambda>u. separador u @ texto u) ts)"

section \<open>Rendering\<close>

lemma foldl_str_passo:
  "foldl str_passo (pre @ '' '') ts =
     (pre @ concat (map (\<lambda>u. separador u @ texto u) ts)) @ '' ''"
proof (induction ts arbitrary: pre)
  case Nil
  show ?case by simp
next
  case (Cons u ts)
  have "str_passo (pre @ '' '') u = (pre @ separador u @ texto u) @ '' ''"
    by (simp add: str_passo_def separador_def)
  then show ?case using Cons.IH[of "pre @ separador u @ texto u"] by simp
qed

lemma str_tokens_juntar: "str_tokens ts = juntar ts"
proof (cases ts)
  case Nil
  then show ?thesis by (simp add: str_tokens_def)
next
  case (Cons t us)
  have "str_passo [] t = texto t @ '' ''" by (simp add: str_passo_def)
  then have "foldl str_passo [] ts =
      (texto t @ concat (map (\<lambda>u. separador u @ texto u) us)) @ '' ''"
    using foldl_str_passo[of "texto t" us] Cons by simp
  then show ?thesis using Cons by (simp add: str_tokens_def butlast_append)
qed

lemma str_Trecho_juntar: "str_Trecho tr = juntar (tokens tr)"
  by (simp add: str_Trecho_def str_tokens_juntar)

text \<open>
  Claim C8. \<open>Trecho.__str__\<close> joins the texts of the tokens with one space,
  a punctuation token attaching to the token before it without space, and
  leaves no separator at the end: for every phrase its result is the join
  \<open>juntar\<close>. The four tokens "he", "is", "happy", "," (the last one
  punctuation) render as "he is happy,", and the empty phrase renders as the
  empty string.
\<close>

theorem C8_str_Trecho_junta:
  "str_Trecho tr = juntar (tokens tr)
   \<and> str_Trecho he_is_happy = ''he is happy,''
   \<and> str_Trecho \<lparr>tokens = []\<rparr> = []"
proof -
  have "str_Trecho he_is_happy = ''he is happy,''"
    by (simp add: str_Trecho_juntar he_is_happy_def novo_token_def separador_def)
  moreover have "str_Trecho \<lparr>tokens = []\<rparr> = []"
    by (simp add: str_Trecho_juntar)
  ultimately show ?thesis using str_Trecho_juntar[of tr] by simp
qed

section \<open>Sentence type\<close>

text \<open>
  Claim C3. A sentence with fewer than two tokens is Declarative and no index
  out of range is read. The code has no length test: on the one-token sentence
  "in" (an adposition that is not "if") it reads \<open>tokens[1]\<close> and raises
  IndexError; on the sentence without tokens it raises at \<open>tokens[0]\<close>; and
  the one-token sentence "if" is Conditional.
\<close>

theorem C3_um_token_levanta_IndexError:
  "obterTipoDaSentenca so_in = Inl IndexError
   \<and> obterTipoDaSentenca (nova_sentenca []) = Inl IndexError
   \<and> obterTipoDaSentenca so_if = Inr TIPO_SENTENCA_CONDICIONAL"
  by (simp add: obterTipoDaSentenca_def item_def so_in_def so_if_def
      nova_sentenca_def novo_token_def)

section \<open>The example of the specification\<close>

text \<open>
  Claim C7. For "The cat eats fish." with the edges cat -> (nsubj, eats),
  the -> (det, cat), fish -> (dobj, eats), the sentence is declarative and
  \<open>__extrairSVOs\<close> returns exactly one SVO: subject "the cat", verb "eats",
  direct object "fish", no indirect object. This holds with the final period
  attached to the verb and with the final period left without edge, whenever
  ten frames or more are free.
\<close>

theorem C7_the_cat_eats_fish:
  "obterTipoDaSentenca (the_cat_eats_fish (Some (''punct'', 2))) = Inr TIPO_SENTENCA_DECLARATIVA
   \<and> map_sum id (map mostrar_svo) (extrairSVOs (10 + n) (the_cat_eats_fish (Some (''punct'', 2))))
       = Inr [(''the cat'', Some ''eats'', Some ''fish'', None)]
   \<and> obterTipoDaSentenca (the_cat_eats_fish None) = Inr TIPO_SENTENCA_DECLARATIVA
   \<and> map_sum id (map mostrar_svo) (extrairSVOs (10 + n) (the_cat_eats_fish None))
       = Inr [(''the cat'', Some ''eats'', Some ''fish'', None)]"
proof -
  have t1: "obterTipoDaSentenca (the_cat_eats_fish (Some (''punct'', 2))) = Inr TIPO_SENTENCA_DECLARATIVA"
    by code_simp
  have e1: "map_sum id (map mostrar_svo) (extrairSVOs (10 + n) (the_cat_eats_fish (Some (''punct'', 2))))
       = Inr [(''the cat'', Some ''eats'', Some ''fish'', None)]"
    by code_simp
  have t2: "obterTipoDaSentenca (the_cat_eats_fish None) = Inr TIPO_SENTENCA_DECLARATIVA"
    by code_simp
  have e2: "map_sum id (map mostrar_svo) (extrairSVOs (10 + n) (the_cat_eats_fish None))
       = Inr [(''the cat'', Some ''eats'', Some ''fish'', None)]"
    by code_simp
  from t1 e1 t2 e2 show ?thesis by (intro conjI)
qed

section \<open>A subject without verb\<close>

text \<open>
  Claim C1. When no verb is found for a subject, an SVO with only the subject
  is still emitted, without error. The code passes the absent verb to
  \<open>__obterObjetosRelacionadosAoVerbo\<close>, which reads \<open>verbo.tokens\<close>: on
  "he happy", a declarative sentence with one subject and no verb above it,
  the verb is \<open>None\<close> and \<open>__extrairSVOs\<close> raises AttributeError, as does
  the analysis of the sentence (with ten frames or more free, so the stack
  plays no part); the object extraction, once called, raises so on an absent
  verb in every sentence.
\<close>

theorem C1_sem_verbo_levanta_AttributeError:
  "obterTipoDaSentenca he_happy = Inr TIPO_SENTENCA_DECLARATIVA
   \<and> extrairSujeitos (10 + n) he_happy = Inr [\<lparr>tokens = [tokens he_happy ! 0]\<rparr>]
   \<and> obterVerboRelacionadoAoSujeito (10 + n) he_happy \<lparr>tokens = [tokens he_happy ! 0]\<rparr> = Inr None
   \<and> extrairSVOs (10 + n) he_happy = Inl AttributeError
   \<and> analisar_sentenca (10 + n) he_happy = Inl AttributeError
   \<and> obterObjetosRelacionadosAoVerbo (Suc pilha) s None relacoes = Inl AttributeError"
proof -
  have a: "obterTipoDaSentenca he_happy = Inr TIPO_SENTENCA_DECLARATIVA" by code_simp
  have b: "extrairSujeitos (10 + n) he_happy = Inr [\<lparr>tokens = [tokens he_happy ! 0]\<rparr>]"
    by code_simp
  have c: "obterVerboRelacionadoAoSujeito (10 + n) he_happy \<lparr>tokens = [tokens he_happy ! 0]\<rparr>
      = Inr None"
    by code_simp
  have d: "extrairSVOs (10 + n) he_happy = Inl AttributeError" by code_simp
  have e: "analisar_sentenca (10 + n) he_happy = Inl AttributeError" by code_simp
  have f: "obterObjetosRelacionadosAoVerbo (Suc pilha) s None relacoes = Inl AttributeError"
    by simp
  from a b c d e f show ?thesis by (intro conjI)
qed

section \<open>The verb phrase\<close>

text \<open>
  Claim C4. The verb phrase is sorted by index before it is rendered. The
  subject and object phrases are sorted (\<open>ordenar\<close>), the verb phrase is
  returned as built: on "he came earlier today than expected." the verb
  phrase holds the tokens 1, 2, 4, 5, 3 in that order, which is not ascending,
  and the verb of the SVO renders as "came earlier than expected today"
  (with ten frames or more free).
\<close>

theorem C4_verbo_nao_ordenado:
  "map_sum id (map_option (\<lambda>vp. map indice (tokens vp)))
      (obterVerboRelacionadoAoSujeito (10 + n) came_earlier \<lparr>tokens = [tokens came_earlier ! 0]\<rparr>)
     = Inr (Some [1, 2, 4, 5, 3])
   \<and> \<not> sorted [1, 2, 4, 5, 3 :: nat]
   \<and> map_sum id (map mostrar_svo) (extrairSVOs (10 + n) came_earlier)
       = Inr [(''he'', Some ''came earlier than expected today'', None, None)]"
proof -
  have a: "map_sum id (map_option (\<lambda>vp. map indice (tokens vp)))
      (obterVerboRelacionadoAoSujeito (10 + n) came_earlier \<lparr>tokens = [tokens came_earlier ! 0]\<rparr>)
     = Inr (Some [1, 2, 4, 5, 3])"
    by code_simp
  have b: "\<not> sorted [1, 2, 4, 5, 3 :: nat]" by simp
  have c: "map_sum id (map mostrar_svo) (extrairSVOs (10 + n) came_earlier)
       = Inr [(''he'', Some ''came earlier than expected today'', None, None)]"
    by code_simp
  from a b c show ?thesis by (intro conjI)
qed

section \<open>Descendants to the right\<close>

text \<open>
  Claim C5. Every token returned by \<open>__obterDescendentesDaDireita\<close> has an
  index not below the root's and is no punctuation, at every depth. The code
  restricts only the children of the root; below them it calls
  \<open>__obterDescendentes\<close>: for the verb of "he eats apples, pears." the
  result holds the comma (index 3, punctuation), and for the verb "want"
  (index 3) of "what do you want to eat?" it holds "what" (index 0), with
  ten frames or more free.
\<close>

theorem C5_direita_so_restringe_filhos:
  "map_sum id (map (\<lambda>t. (indice t, pos t)))
      (obterDescendentesDaDireita (10 + n) eats_apples (Some (tokens eats_apples ! 1)))
     = Inr [(2, ''NOUN''), (3, ''PUNCT''), (4, ''NOUN'')]
   \<and> indice (tokens want_to_eat ! 3) = 3
   \<and> map_sum id (map (\<lambda>t. (indice t, pos t)))
      (obterDescendentesDaDireita (10 + n) want_to_eat (Some (tokens want_to_eat ! 3)))
     = Inr [(5, ''VERB''), (0, ''NOUN''), (4, ''PART'')]"
proof -
  have a: "map_sum id (map (\<lambda>t. (indice t, pos t)))
      (obterDescendentesDaDireita (10 + n) eats_apples (Some (tokens eats_apples ! 1)))
     = Inr [(2, ''NOUN''), (3, ''PUNCT''), (4, ''NOUN'')]"
    by code_simp
  have b: "indice (tokens want_to_eat ! 3) = 3" by code_simp
  have c: "map_sum id (map (\<lambda>t. (indice t, pos t)))
      (obterDescendentesDaDireita (10 + n) want_to_eat (Some (tokens want_to_eat ! 3)))
     = Inr [(5, ''VERB''), (0, ''NOUN''), (4, ''PART'')]"
    by code_simp
  from a b c show ?thesis by (intro conjI)
qed

section \<open>Complements of the verb\<close>

text \<open>
  Claim C6. \<open>__obterComplementaresDoVerbo\<close> contains every token whose head
  is the root, at an index not below the root's, with a relation that is no
  object relation, also at the last index of the sentence. The loop of the
  code stops one index early (\<open>len(sentenca.tokens) - 1\<close>): in "he runs fast"
  the token "fast" is at the last index 2, its head is the verb (index 1) and
  its relation advmod is no object relation, yet the complements of the verb
  are empty and the verb renders as "runs". With a final period after it,
  the same token is found. The stack plays no part: ten frames or more are
  free.
\<close>

theorem C6_ultimo_indice_ignorado:
  "length (tokens (he_runs_fast [])) = 3
   \<and> dependencia (tokens (he_runs_fast []) ! 2) = Some (''advmod'', indice (tokens (he_runs_fast []) ! 1))
   \<and> indice (tokens (he_runs_fast []) ! 1) \<le> indice (tokens (he_runs_fast []) ! 2)
   \<and> ''advmod'' \<notin> set RELACOES_OBJETO
   \<and> obterComplementaresDoVerbo (10 + n) (he_runs_fast []) (tokens (he_runs_fast []) ! 1) = Inr []
   \<and> map_sum id (map mostrar_svo) (extrairSVOs (10 + n) (he_runs_fast []))
       = Inr [(''he'', Some ''runs'', None, None)]
   \<and> map_sum id (map mostrar_svo)
        (extrairSVOs (10 + n) (he_runs_fast [novo_token ''.'' 3 ''PUNCT'' (Some (''punct'', 1))]))
       = Inr [(''he'', Some ''runs fast'', None, None)]"
proof -
  have a: "length (tokens (he_runs_fast [])) = 3" by code_simp
  have b: "dependencia (tokens (he_runs_fast []) ! 2)
      = Some (''advmod'', indice (tokens (he_runs_fast []) ! 1))" by code_simp
  have c: "indice (tokens (he_runs_fast []) ! 1) \<le> indice (tokens (he_runs_fast []) ! 2)"
    by code_simp
  have d: "''advmod'' \<notin> set RELACOES_OBJETO" by code_simp
  have e: "obterComplementaresDoVerbo (10 + n) (he_runs_fast []) (tokens (he_runs_fast []) ! 1)
      = Inr []"
    by code_simp
  have f: "map_sum id (map mostrar_svo) (extrairSVOs (10 + n) (he_runs_fast []))
       = Inr [(''he'', Some ''runs'', None, None)]" by code_simp
  have g: "map_sum id (map mostrar_svo)
        (extrairSVOs (10 + n) (he_runs_fast [novo_token ''.'' 3 ''PUNCT'' (Some (''punct'', 1))]))
       = Inr [(''he'', Some ''runs fast'', None, None)]" by code_simp
  from a b c d e f g show ?thesis by (intro conjI)
qed

section \<open>The verb found is a verb\<close>

lemma busca_pos:
  "buscarAscendenteComPOSEspecifico pilha s folha p = Inr (Some v) \<Longrightarrow> pos v = p"
proof (induction pilha arbitrary: folha)
  case 0
  then show ?case by simp
next
  case (Suc pilha)
  then show ?case
    by (auto split: option.splits sum.splits if_splits)
qed

text \<open>
  Claim C9. Every phrase returned by \<open>__obterVerboRelacionadoAoSujeito\<close>
  has as its first token the token that the ascent from the subject's key
  token returned, the part of speech of that token is "VERB", and so the scan
  of \<open>__obterObjetosRelacionadosAoVerbo\<close> for the first token of the phrase
  with part of speech "VERB" finds a token (that same one). The ascent is the
  call that the method makes, with one frame fewer.
\<close>

theorem C9_verbo_primeiro_e_VERB:
  assumes "obterVerboRelacionadoAoSujeito pilha s suj = Inr (Some vp)"
  shows "\<exists>v resto.
           buscarAscendenteComPOSEspecifico (pilha - 1) s (find eh_nsubj (tokens suj)) ''VERB''
             = Inr (Some v)
           \<and> tokens vp = v # resto
           \<and> pos v = ''VERB''
           \<and> find (\<lambda>t. pos t = ''VERB'') (tokens vp) = Some v"
proof (cases pilha)
  case 0
  with assms show ?thesis by simp
next
  case (Suc m)
  with assms obtain v cs where
    v: "buscarAscendenteComPOSEspecifico m s (find eh_nsubj (tokens suj)) ''VERB''
          = Inr (Some v)"
    and vp: "vp = \<lparr>tokens = [v] @ cs\<rparr>"
    by (auto simp: entao_def split: option.splits sum.splits)
  from busca_pos[OF v] have "pos v = ''VERB''" .
  with v vp Suc show ?thesis by simp
qed

theorem C9_verbo_primeiro_e_VERB_witness:
  "obterVerboRelacionadoAoSujeito 10 (the_cat_eats_fish None)
      \<lparr>tokens = take 2 (tokens (the_cat_eats_fish None))\<rparr>
     = Inr (Some \<lparr>tokens = [tokens (the_cat_eats_fish None) ! 2]\<rparr>)
   \<and> (\<exists>v resto.
         buscarAscendenteComPOSEspecifico (10 - 1) (the_cat_eats_fish None)
             (find eh_nsubj (tokens \<lparr>tokens = take 2 (tokens (the_cat_eats_fish None))\<rparr>)) ''VERB''
           = Inr (Some v)
         \<and> tokens \<lparr>tokens = [tokens (the_cat_eats_fish None) ! 2]\<rparr> = v # resto
         \<and> pos v = ''VERB''
         \<and> find (\<lambda>t. pos t = ''VERB'') (tokens \<lparr>tokens = [tokens (the_cat_eats_fish None) ! 2]\<rparr>)
             = Some v)"
proof -
  have h: "obterVerboRelacionadoAoSujeito 10 (the_cat_eats_fish None)
      \<lparr>tokens = take 2 (tokens (the_cat_eats_fish None))\<rparr>
     = Inr (Some \<lparr>tokens = [tokens (the_cat_eats_fish None) ! 2]\<rparr>)"
    by code_simp
  from h C9_verbo_primeiro_e_VERB[OF h] show ?thesis by (rule conjI)
qed

section \<open>The singleton\<close>

lemma Singleton_call_cached:
  "instances w cls = Some obj \<Longrightarrow> Singleton_call cls w = (obj, w)"
  by (simp add: Singleton_call_def)

lemma construir_cached:
  "instances w cls = Some obj \<Longrightarrow> construir cls n w = (replicate n obj, w)"
  by (induction n) (simp_all add: Singleton_call_cached)

lemma Singleton_call_instances:
  "instances (snd (Singleton_call cls w)) cls = Some (fst (Singleton_call cls w))"
  by (simp add: Singleton_call_def split: option.splits)

text \<open>
  Claim C10. Constructing \<open>PLN\<close> is idempotent: in every sequence of
  constructor calls, each call after the first returns the instance that the
  first call returned, and the state after all the calls is the state after
  the first one, so no constructor body runs again. Started from the freshly
  loaded module, the constructor body has run exactly once after any number
  of calls.
\<close>

theorem C10_Singleton_idempotente:
  "construir cls (Suc n) w
     = (replicate (Suc n) (fst (Singleton_call cls w)), snd (Singleton_call cls w))
   \<and> inicializacoes (snd (construir cls (Suc n) mundo_inicial)) = 1"
proof -
  have "instances (snd (Singleton_call cls w)) cls = Some (fst (Singleton_call cls w))" for w
    by (rule Singleton_call_instances)
  then have "construir cls n (snd (Singleton_call cls w)) =
      (replicate n (fst (Singleton_call cls w)), snd (Singleton_call cls w))" for w
    by (rule construir_cached)
  then have g: "construir cls (Suc n) w
     = (replicate (Suc n) (fst (Singleton_call cls w)), snd (Singleton_call cls w))" for w
    by (simp add: split_beta)
  have "inicializacoes (snd (Singleton_call cls mundo_inicial)) = 1"
    by (simp add: Singleton_call_def mundo_inicial_def)
  with g show ?thesis by simp
qed

section \<open>The traversals on a cycle\<close>

lemma sobe_add: "sobe ts (a + b) i = Option.bind (sobe ts a i) (sobe ts b)"
  by (induction a arbitrary: i) (simp_all split: option.splits)

lemma sobe_um:
  "sobe ts (Suc 0) j = Some i \<longleftrightarrow>
     j < length ts \<and> (\<exists>d. dependencia (ts ! j) = Some d \<and> snd d = i)"
  by (auto split: option.splits)

text \<open>On a cycle, the head of a token lies on the cycle too.\<close>

lemma ciclo_pai:
  assumes "0 < k" and "sobe ts k i = Some i"
  shows "i < length ts \<and>
         (\<exists>d. dependencia (ts ! i) = Some d \<and> snd d < length ts
               \<and> sobe ts k (snd d) = Some (snd d))"
proof -
  from assms(1) obtain m where k: "k = Suc m" by (cases k) simp_all
  from assms(2) k have i: "i < length ts" by (simp split: if_splits)
  from assms(2) k i obtain d where
    d: "dependencia (ts ! i) = Some d" and up: "sobe ts m (snd d) = Some i"
    by (auto split: option.splits)
  have "sobe ts (m + Suc 0) (snd d) = Option.bind (sobe ts m (snd d)) (sobe ts (Suc 0))"
    by (rule sobe_add)
  with up i d k have cyc: "sobe ts k (snd d) = Some (snd d)" by simp
  with k have "snd d < length ts" by (simp split: if_splits)
  with i d cyc show ?thesis by simp
qed

text \<open>On a cycle, a token has a child that lies on the cycle too.\<close>

lemma ciclo_filho:
  assumes "0 < k" and "sobe ts k i = Some i"
  shows "\<exists>j d. j < length ts \<and> dependencia (ts ! j) = Some d \<and> snd d = i
               \<and> sobe ts k j = Some j"
proof -
  from assms(1) obtain m where k: "k = Suc m" by (cases k) simp_all
  have "sobe ts (m + Suc 0) i = Option.bind (sobe ts m i) (sobe ts (Suc 0))"
    by (rule sobe_add)
  with assms(2) k obtain j where
    j: "sobe ts m i = Some j" and volta: "sobe ts (Suc 0) j = Some i"
    by (cases "sobe ts m i") simp_all
  from volta obtain d where
    jd: "j < length ts" "dependencia (ts ! j) = Some d" "snd d = i"
    unfolding sobe_um by blast
  have "sobe ts (Suc 0 + m) j = Option.bind (sobe ts (Suc 0) j) (sobe ts m)"
    by (rule sobe_add)
  with volta j k have "sobe ts k j = Some j" by simp
  with jd show ?thesis by blast
qed

lemma normalizada_indice:
  assumes "normalizada s" and "j < length (tokens s)"
  shows "indice (tokens s ! j) = j"
proof -
  have "map indice (tokens s) ! j = [0 ..< length (tokens s)] ! j"
    using assms(1) by (simp add: normalizada_def)
  with assms(2) show ?thesis by simp
qed

lemma normalizada_nth:
  assumes "normalizada s" and "t \<in> set (tokens s)"
  shows "indice t < length (tokens s) \<and> tokens s ! indice t = t"
proof -
  from assms(2) obtain j where j: "j < length (tokens s)" "tokens s ! j = t"
    by (auto simp: in_set_conv_nth)
  with normalizada_indice[OF assms(1) j(1)] show ?thesis by simp
qed

text \<open>The descent raises nothing but \<open>RecursionError\<close>.\<close>

lemma laco_erro:
  assumes "\<And>t e. obterDescendentes pilha s t = Inl e \<Longrightarrow> e = RecursionError"
  shows "obterDescendentes_laco pilha s raiz ts ds = Inl e \<Longrightarrow> e = RecursionError"
proof (induction ts arbitrary: ds)
  case Nil
  then show ?case by simp
next
  case (Cons t ts)
  then show ?case
    using assms by (auto split: option.splits if_splits sum.splits)
qed

lemma desc_erro: "obterDescendentes pilha s raiz = Inl e \<Longrightarrow> e = RecursionError"
proof (induction pilha arbitrary: raiz e)
  case 0
  then show ?case by simp
next
  case (Suc pilha)
  from Suc.prems have "obterDescendentes_laco pilha s raiz (tokens s) [] = Inl e" by simp
  then show ?case by (rule laco_erro[rotated]) (rule Suc.IH)
qed

text \<open>The loop raises when the call for one of the children of \<open>raiz\<close> does.\<close>

lemma laco_ciclo:
  assumes "c \<in> set ts" and "dependencia c = Some d" and "snd d = indice raiz"
    and "obterDescendentes pilha s c = Inl RecursionError"
  shows "obterDescendentes_laco pilha s raiz ts ds = Inl RecursionError"
  using assms(1)
proof (induction ts arbitrary: ds)
  case Nil
  then show ?case by simp
next
  case (Cons t ts)
  show ?case
  proof (cases "t = c")
    case True
    with assms(2-4) show ?thesis by simp
  next
    case False
    with Cons.prems have "c \<in> set ts" by simp
    then have rest: "obterDescendentes_laco pilha s raiz ts ds' = Inl RecursionError" for ds'
      by (rule Cons.IH)
    show ?thesis
    proof (cases "obterDescendentes pilha s t")
      case (Inl e)
      then have "e = RecursionError" by (rule desc_erro)
      with Inl rest show ?thesis by (simp split: option.splits)
    next
      case (Inr sub)
      with rest show ?thesis by (simp split: option.splits)
    qed
  qed
qed

text \<open>From a token on a cycle the descent uses every frame it is given.\<close>

lemma desc_ciclo:
  assumes "normalizada s" and "0 < k"
  shows "sobe (tokens s) k (indice raiz) = Some (indice raiz) \<Longrightarrow>
         obterDescendentes pilha s raiz = Inl RecursionError"
proof (induction pilha arbitrary: raiz)
  case 0
  show ?case by simp
next
  case (Suc pilha)
  from ciclo_filho[OF assms(2) Suc.prems] obtain j d where
    j: "j < length (tokens s)" "dependencia (tokens s ! j) = Some d"
       "snd d = indice raiz" "sobe (tokens s) k j = Some j"
    by blast
  have "indice (tokens s ! j) = j" by (rule normalizada_indice[OF assms(1) j(1)])
  with j(4) have "obterDescendentes pilha s (tokens s ! j) = Inl RecursionError"
    by (intro Suc.IH) simp
  moreover from j(1) have "tokens s ! j \<in> set (tokens s)" by simp
  ultimately have "obterDescendentes_laco pilha s raiz (tokens s) [] = Inl RecursionError"
    using j(2,3) by (intro laco_ciclo[where c = "tokens s ! j" and d = d])
  then show ?case by simp
qed

text \<open>
  From a token on a cycle the ascent ends only at a token of the part of
  speech it looks for, or when no frame is left.
\<close>

lemma busca_ciclo:
  assumes "0 < k"
  shows "sobe (tokens s) k i = Some i \<Longrightarrow>
         buscarAscendenteComPOSEspecifico pilha s (Some (tokens s ! i)) p = Inl RecursionError
         \<or> (\<exists>v. buscarAscendenteComPOSEspecifico pilha s (Some (tokens s ! i)) p = Inr (Some v)
                 \<and> v \<in> set (tokens s) \<and> pos v = p)"
proof (induction pilha arbitrary: i)
  case 0
  show ?case by simp
next
  case (Suc pilha)
  from ciclo_pai[OF assms Suc.prems] obtain d where
    d: "dependencia (tokens s ! i) = Some d" "snd d < length (tokens s)"
       "sobe (tokens s) k (snd d) = Some (snd d)"
    by blast
  show ?case
  proof (cases "pos (tokens s ! snd d) = p")
    case True
    with d show ?thesis by (simp add: item_def)
  next
    case False
    with d Suc.IH[OF d(3)] show ?thesis by (simp add: item_def)
  qed
qed

lemma ciclo_simps:
  "tokens ciclo = [ciclo_a, ciclo_b]"
  "dependencia ciclo_a = Some (''dep'', 1)"
  "dependencia ciclo_b = Some (''dep'', 0)"
  "indice ciclo_a = 0"
  "indice ciclo_b = 1"
  "pos ciclo_a = ''NOUN''"
  "pos ciclo_b = ''NOUN''"
  by (simp_all add: ciclo_def nova_sentenca_def ciclo_a_def ciclo_b_def novo_token_def)

lemma ciclo_normalizada: "normalizada ciclo"
  by (simp add: normalizada_def ciclo_simps)

lemma ciclo_sobe: "sobe (tokens ciclo) 2 0 = Some 0"
  by (simp add: ciclo_simps numeral_2_eq_2)

text \<open>
  Claim C2, as stated: on a sentence whose edges contain a cycle, both
  traversals terminate and report a malformed tree, rather than recursing
  without bound. On the sentence of two tokens that are each other's head,
  with 1000 frames free (the whole default limit of the interpreter), the
  descent and the ascent from the first token both end in RecursionError:
  the recursion went on until the stack was used up. The code has no visited
  set and no malformed-tree error.
\<close>

theorem C2_ciclo_esgota_pilha:
  "obterDescendentes 1000 ciclo ciclo_a = Inl RecursionError
   \<and> buscarAscendenteComPOSEspecifico 1000 ciclo (Some ciclo_a) ''VERB'' = Inl RecursionError"
proof -
  have "sobe (tokens ciclo) 2 (indice ciclo_a) = Some (indice ciclo_a)"
    using ciclo_sobe by (simp add: ciclo_simps)
  then have a: "obterDescendentes 1000 ciclo ciclo_a = Inl RecursionError"
    by (rule desc_ciclo[OF ciclo_normalizada, rotated]) simp
  have "buscarAscendenteComPOSEspecifico 1000 ciclo (Some (tokens ciclo ! 0)) ''VERB''
          = Inl RecursionError
        \<or> (\<exists>v. buscarAscendenteComPOSEspecifico 1000 ciclo (Some (tokens ciclo ! 0)) ''VERB''
                  = Inr (Some v)
                \<and> v \<in> set (tokens ciclo) \<and> pos v = ''VERB'')"
    by (rule busca_ciclo[OF _ ciclo_sobe]) simp
  moreover have "\<not> (v \<in> set (tokens ciclo) \<and> pos v = ''VERB'')" for v
    by (auto simp: ciclo_simps)
  ultimately have "buscarAscendenteComPOSEspecifico 1000 ciclo (Some (tokens ciclo ! 0)) ''VERB''
      = Inl RecursionError"
    by blast
  then have b: "buscarAscendenteComPOSEspecifico 1000 ciclo (Some ciclo_a) ''VERB''
      = Inl RecursionError"
    by (simp add: ciclo_simps)
  from a b show ?thesis by (rule conjI)
qed

text \<open>
  Claim C2, amended. For every normalised sentence and every token of it
  whose chain of heads comes volta to it (a cycle), and for every number of
  free frames: the descent from that token terminates by raising
  RecursionError, and the ascent from it terminates either by raising
  RecursionError or by returning a token of the sentence that has the part of
  speech looked for. Neither reports a malformed tree: the recursion is
  bounded by the stack of the interpreter alone.
\<close>

theorem C2_ciclo_RecursionError:
  assumes "normalizada s" and "raiz \<in> set (tokens s)" and "0 < k"
    and "sobe (tokens s) k (indice raiz) = Some (indice raiz)"
  shows "obterDescendentes pilha s raiz = Inl RecursionError
         \<and> (buscarAscendenteComPOSEspecifico pilha s (Some raiz) p = Inl RecursionError
            \<or> (\<exists>v. buscarAscendenteComPOSEspecifico pilha s (Some raiz) p = Inr (Some v)
                    \<and> v \<in> set (tokens s) \<and> pos v = p))"
proof -
  have a: "obterDescendentes pilha s raiz = Inl RecursionError"
    using assms(4) by (rule desc_ciclo[OF assms(1) assms(3)])
  from normalizada_nth[OF assms(1) assms(2)] have "tokens s ! indice raiz = raiz" by simp
  with busca_ciclo[OF assms(3) assms(4), of pilha p] a show ?thesis by simp
qed

theorem C2_ciclo_RecursionError_witness:
  "normalizada ciclo
   \<and> ciclo_a \<in> set (tokens ciclo)
   \<and> (0::nat) < 2
   \<and> sobe (tokens ciclo) 2 (indice ciclo_a) = Some (indice ciclo_a)
   \<and> obterDescendentes 5 ciclo ciclo_a = Inl RecursionError
   \<and> (buscarAscendenteComPOSEspecifico 5 ciclo (Some ciclo_a) ''NOUN'' = Inl RecursionError
      \<or> (\<exists>v. buscarAscendenteComPOSEspecifico 5 ciclo (Some ciclo_a) ''NOUN'' = Inr (Some v)
              \<and> v \<in> set (tokens ciclo) \<and> pos v = ''NOUN''))"
proof -
  have n: "normalizada ciclo" by (rule ciclo_normalizada)
  have m: "ciclo_a \<in> set (tokens ciclo)" by (simp add: ciclo_simps)
  have k: "(0::nat) < 2" by simp
  have c: "sobe (tokens ciclo) 2 (indice ciclo_a) = Some (indice ciclo_a)"
    using ciclo_sobe by (simp add: ciclo_simps)
  from C2_ciclo_RecursionError[OF n m k c, of 5 "''NOUN''"] n m k c show ?thesis by simp
qed

end
